theory Spec2Isabelle
  imports Main
begin

section \<open>The call page (CallPage) as a state machine\<close>

text \<open>
  The call page is a React function component. Each execution of \<open>CallPage\<close> (a render)
  binds the values of its hooks to constants: \<open>sessionId\<close>, \<open>user\<close>, and one constant
  per \<open>useState\<close>. A callback created in a render reads the constants of that render;
  \<open>setX\<close> writes the state cell that the next render will read. The model keeps the two
  apart: every callback takes the bindings it closed over (a \<open>render\<close>) and the world it
  runs in, reads only from the former and writes only to the latter.

  An effect runs after the render in which one of its dependencies changed, and not
  again until one changes once more. So the handlers that the peer effect (dependencies
  \<open>[user, sessionId]\<close>) registers, the cleanup it returns and the \<open>cleanupMedia\<close> they
  call keep the bindings of the render that ran the effect, while the countdown effect
  (dependencies \<open>[timeLeft, sessionId, router]\<close>) runs anew, with new bindings, after
  every change of \<open>timeLeft\<close>. The handlers of the two buttons are those of the latest
  render.

  Asynchronous functions are cut at each \<open>await\<close>: the part before issues the request,
  the part after (\<open>_resume\<close>) takes the outcome as an argument.
\<close>

subsection \<open>Data\<close>

type_synonym stream_ref = nat
type_synonym call_ref = nat
type_synonym peer_ref = nat

datatype track_kind = Audio | Video

text \<open>A MediaStreamTrack: its kind, its \<open>enabled\<close> flag, and how often \<open>stop()\<close> was
  invoked on it.\<close>

record track =
  kind :: track_kind
  enabled :: bool
  stopCalls :: nat

text \<open>The bindings of one render: \<open>router.query.id\<close>, the uid of \<open>useAuth().user\<close>, and
  the eleven \<open>useState\<close> values.\<close>

record render =
  sessionId :: "string option"
  user :: "string option"
  timeLeft :: int
  error :: "string option"
  connectionStatus :: string
  peer :: "peer_ref option"
  currentCall :: "call_ref option"
  localStream :: "stream_ref option"
  isMuted :: bool
  isVideoOff :: bool
  partnerPeerId :: "string option"
  remoteIsMuted :: bool
  remoteIsVideoOff :: bool

text \<open>Invocations on the signalling library, in order.\<close>

datatype broker_op =
    NewPeer string
  | PeerCall peer_ref string stream_ref
  | Answer call_ref stream_ref
  | Reconnect peer_ref

text \<open>Requests to the backend, in order.\<close>

datatype api_op = GetMatchmakingStatus | UpdatePeerId string "string option"

text \<open>Pending timers. The countdown timeout carries the \<open>timeLeft\<close> its callback closed
  over.\<close>

datatype timer = DiscoveryTimeout | SessionInterval | CountdownTimeout int

text \<open>Backend status requests that have been sent and not yet answered, by caller.\<close>

datatype request = DiscoveryStatus | SessionStatus

text \<open>The response of \<open>getMatchmakingStatus\<close>; \<open>timeLeft\<close> is a count of milliseconds.\<close>

record status_response =
  r_status :: string
  r_sessionId :: "string option"
  r_partnerId :: "string option"
  r_peerIds :: "(string \<times> string) list option"
  r_timeLeft :: "int option"

text \<open>
  Everything a callback can read or change besides its own bindings: the state cells
  (\<open>page\<close>), the tracks of every MediaStream, the \<open>srcObject\<close> of the two video elements
  (\<open>None\<close> when \<open>ref.current\<close> is null), the calls closed and peers destroyed, the
  invocation logs, the navigations requested, the timers and requests pending, the number
  of Peer objects constructed, the dependencies \<open>[timeLeft, sessionId]\<close> with which the
  countdown effect ran last, and whether the component is still mounted.
\<close>

record world =
  page :: render
  streams :: "stream_ref \<Rightarrow> track list"
  localVideoRef :: "stream_ref option option"
  remoteVideoRef :: "stream_ref option option"
  closedCalls :: "call_ref set"
  destroyedPeers :: "peer_ref set"
  broker :: "broker_op list"
  api :: "api_op list"
  pushes :: "string list"
  timers :: "timer list"
  inflight :: "request list"
  peersMade :: nat
  timerDeps :: "(int \<times> string option) option"
  mounted :: bool

subsection \<open>State setters and small helpers\<close>

definition setTimeLeft :: "int \<Rightarrow> world \<Rightarrow> world" where
  "setTimeLeft v w = w\<lparr>page := (page w)\<lparr>timeLeft := v\<rparr>\<rparr>"

definition setError :: "string \<Rightarrow> world \<Rightarrow> world" where
  "setError v w = w\<lparr>page := (page w)\<lparr>error := Some v\<rparr>\<rparr>"

definition setConnectionStatus :: "string \<Rightarrow> world \<Rightarrow> world" where
  "setConnectionStatus v w = w\<lparr>page := (page w)\<lparr>connectionStatus := v\<rparr>\<rparr>"

definition setPeer :: "peer_ref option \<Rightarrow> world \<Rightarrow> world" where
  "setPeer v w = w\<lparr>page := (page w)\<lparr>peer := v\<rparr>\<rparr>"

definition setCurrentCall :: "call_ref option \<Rightarrow> world \<Rightarrow> world" where
  "setCurrentCall v w = w\<lparr>page := (page w)\<lparr>currentCall := v\<rparr>\<rparr>"

definition setLocalStream :: "stream_ref option \<Rightarrow> world \<Rightarrow> world" where
  "setLocalStream v w = w\<lparr>page := (page w)\<lparr>localStream := v\<rparr>\<rparr>"

definition setIsMuted :: "bool \<Rightarrow> world \<Rightarrow> world" where
  "setIsMuted v w = w\<lparr>page := (page w)\<lparr>isMuted := v\<rparr>\<rparr>"

definition setIsVideoOff :: "bool \<Rightarrow> world \<Rightarrow> world" where
  "setIsVideoOff v w = w\<lparr>page := (page w)\<lparr>isVideoOff := v\<rparr>\<rparr>"

definition setPartnerPeerId :: "string \<Rightarrow> world \<Rightarrow> world" where
  "setPartnerPeerId v w = w\<lparr>page := (page w)\<lparr>partnerPeerId := Some v\<rparr>\<rparr>"

definition routerPush :: "string \<Rightarrow> world \<Rightarrow> world" where
  "routerPush url w = w\<lparr>pushes := pushes w @ [url]\<rparr>"

text \<open>JavaScript truthiness of an optional string: defined and not empty.\<close>

fun truthy :: "string option \<Rightarrow> bool" where
  "truthy None = False"
| "truthy (Some s) = (s \<noteq> [])"

text \<open>How a template literal prints an optional string.\<close>

fun shown :: "string option \<Rightarrow> string" where
  "shown None = ''undefined''"
| "shown (Some s) = s"

definition stop :: "track \<Rightarrow> track" where
  "stop t = t\<lparr>stopCalls := Suc (stopCalls t)\<rparr>"

definition flipIf :: "track_kind \<Rightarrow> track \<Rightarrow> track" where
  "flipIf k t = (if kind t = k then t\<lparr>enabled := \<not> enabled t\<rparr> else t)"

subsection \<open>cleanupMedia and the toggles\<close>

text \<open>\<open>cleanupMedia\<close> (lines 258-281). \<open>localStream\<close>, \<open>currentCall\<close> and \<open>peer\<close> are the
  bindings of the render that created this \<open>cleanupMedia\<close>.\<close>

definition cleanupMedia :: "render \<Rightarrow> world \<Rightarrow> world" where
  "cleanupMedia env w =
    (let w1 = (case localStream env of
                 None \<Rightarrow> w
               | Some s \<Rightarrow> setLocalStream None (w\<lparr>streams := (streams w)(s := map stop (streams w s))\<rparr>));
         w2 = (case currentCall env of
                 None \<Rightarrow> w1
               | Some c \<Rightarrow> setCurrentCall None (w1\<lparr>closedCalls := insert c (closedCalls w1)\<rparr>));
         w3 = (case localVideoRef w2 of None \<Rightarrow> w2 | Some _ \<Rightarrow> w2\<lparr>localVideoRef := Some None\<rparr>);
         w4 = (case remoteVideoRef w3 of None \<Rightarrow> w3 | Some _ \<Rightarrow> w3\<lparr>remoteVideoRef := Some None\<rparr>)
     in (case peer env of
           None \<Rightarrow> w4
         | Some p \<Rightarrow> w4\<lparr>destroyedPeers := insert p (destroyedPeers w4)\<rparr>))"

text \<open>\<open>toggleMute\<close> (lines 283-290) and \<open>toggleVideo\<close> (lines 292-299).\<close>

definition toggleMute :: "render \<Rightarrow> world \<Rightarrow> world" where
  "toggleMute env w =
    (case localStream env of
       None \<Rightarrow> w
     | Some s \<Rightarrow> setIsMuted (\<not> isMuted env)
                  (w\<lparr>streams := (streams w)(s := map (flipIf Audio) (streams w s))\<rparr>))"

definition toggleVideo :: "render \<Rightarrow> world \<Rightarrow> world" where
  "toggleVideo env w =
    (case localStream env of
       None \<Rightarrow> w
     | Some s \<Rightarrow> setIsVideoOff (\<not> isVideoOff env)
                  (w\<lparr>streams := (streams w)(s := map (flipIf Video) (streams w s))\<rparr>))"

text \<open>The two buttons are rendered with the handlers of the latest render, so a click
  runs the toggle with the current state as its bindings.\<close>

definition clickMute :: "world \<Rightarrow> world" where
  "clickMute w = toggleMute (page w) w"

definition clickVideo :: "world \<Rightarrow> world" where
  "clickVideo w = toggleVideo (page w) w"

subsection \<open>The peer effect: registration, media, call racing\<close>

text \<open>\<open>setupMediaStream\<close> (lines 69-85), after \<open>getUserMedia\<close> has settled with \<open>gum\<close>:
  a rejection (\<open>Inl\<close>) is caught, reported and yields null.\<close>

definition setupMediaStream :: "string + stream_ref \<Rightarrow> world \<Rightarrow> stream_ref option \<times> world" where
  "setupMediaStream gum w =
    (case gum of
       Inl _ \<Rightarrow> (None, setError ''Failed to access camera/microphone'' w)
     | Inr s \<Rightarrow>
         (let w1 = setLocalStream (Some s) w
          in (Some s, (case localVideoRef w1 of
                         None \<Rightarrow> w1
                       | Some _ \<Rightarrow> w1\<lparr>localVideoRef := Some (Some s)\<rparr>))))"

text \<open>\<open>setupCallHandlers\<close> (lines 167-203): the state writes; the three handlers it
  registers on the call are \<open>callOnError\<close> and \<open>callOnClose\<close> below (the \<open>stream\<close> handler
  only drives the remote video element and the remote indicators).\<close>

definition setupCallHandlers :: "call_ref \<Rightarrow> world \<Rightarrow> world" where
  "setupCallHandlers c w = setConnectionStatus ''Call connecting...'' (setCurrentCall (Some c) w)"

text \<open>\<open>call.on('error')\<close> (lines 192-196) and \<open>call.on('close')\<close> (lines 198-202). Both
  are created inside the peer effect, so the \<open>cleanupMedia\<close> they call is the one of the
  render \<open>env\<close> that ran the effect.\<close>

definition callOnError :: "render \<Rightarrow> world \<Rightarrow> world" where
  "callOnError env w = cleanupMedia env (setError ''Call connection failed'' w)"

definition callOnClose :: "render \<Rightarrow> world \<Rightarrow> world" where
  "callOnClose env w = cleanupMedia env (setConnectionStatus ''Call ended'' w)"

text \<open>\<open>initializePeer\<close> (lines 48-66 and 164): \<open>sid\<close> and \<open>uid\<close> are \<open>sessionId\<close> and
  \<open>user.uid\<close>, both bound because the effect returned early otherwise; \<open>suffix\<close> is the
  string drawn from \<open>Math.random()\<close>. The Peer object constructed is number
  \<open>peersMade w\<close>.\<close>

definition myPeerId :: "string \<Rightarrow> string \<Rightarrow> string \<Rightarrow> string" where
  "myPeerId sid uid suffix = sid @ ''-'' @ uid @ ''-'' @ suffix"

definition initializePeer :: "string \<Rightarrow> string \<Rightarrow> string \<Rightarrow> world \<Rightarrow> world" where
  "initializePeer sid uid suffix w =
    setPeer (Some (peersMade w))
      (w\<lparr>broker := broker w @ [NewPeer (myPeerId sid uid suffix)], peersMade := Suc (peersMade w)\<rparr>)"

text \<open>\<open>newPeer.on('error')\<close> (lines 148-156): \<open>etype\<close> is \<open>error.type\<close>, \<open>suffix\<close> the
  random string a retry would draw.\<close>

definition peerOnError :: "string \<Rightarrow> string \<Rightarrow> string \<Rightarrow> string \<Rightarrow> world \<Rightarrow> world" where
  "peerOnError sid uid etype suffix w =
    (if etype = ''unavailable-id'' then initializePeer sid uid suffix w
     else setError (''Connection error: '' @ etype) w)"

text \<open>\<open>newPeer.on('disconnected')\<close> (lines 158-162).\<close>

definition peerOnDisconnected :: "peer_ref \<Rightarrow> world \<Rightarrow> world" where
  "peerOnDisconnected newPeer w =
    (setConnectionStatus ''Disconnected - Attempting to reconnect...'' w)
      \<lparr>broker := broker w @ [Reconnect newPeer]\<rparr>"

text \<open>\<open>newPeer.on('call')\<close> (lines 134-146). \<open>localStream\<close> and \<open>currentCall\<close> are the
  bindings of the render \<open>env\<close> that ran the effect; \<open>gum\<close> is what \<open>getUserMedia\<close> settles
  with when \<open>setupMediaStream\<close> is called. The handler is suspended at the \<open>await\<close>, but
  what it reads after resuming are its own bindings, so it is modelled in one piece.\<close>

definition peerOnCall :: "render \<Rightarrow> call_ref \<Rightarrow> string + stream_ref \<Rightarrow> world \<Rightarrow> world" where
  "peerOnCall env c gum w =
    (let (stream, w1) = (case localStream env of
                           Some s \<Rightarrow> (Some s, w)
                         | None \<Rightarrow> setupMediaStream gum w)
     in (case stream of
           None \<Rightarrow> w1
         | Some s \<Rightarrow>
             (if currentCall env = None
              then setupCallHandlers c (w1\<lparr>broker := broker w1 @ [Answer c s]\<rparr>)
              else w1)))"

text \<open>\<open>attemptConnection\<close> (lines 101-125), up to its \<open>await\<close>: the status request goes
  out.\<close>

definition attemptConnection :: "world \<Rightarrow> world" where
  "attemptConnection w =
    w\<lparr>api := api w @ [GetMatchmakingStatus], inflight := inflight w @ [DiscoveryStatus]\<rparr>"

text \<open>The partner's peer identifier in a response:
  \<open>status.partnerId && status.peerIds?.[status.partnerId]\<close>.\<close>

definition partnerPeer :: "status_response \<Rightarrow> string option" where
  "partnerPeer st =
    (if truthy (r_partnerId st)
     then (case r_peerIds st of
             None \<Rightarrow> None
           | Some ids \<Rightarrow>
               (case map_of ids (shown (r_partnerId st)) of
                  None \<Rightarrow> None
                | Some pid \<Rightarrow> if pid = [] then None else Some pid))
     else None)"

text \<open>\<open>attemptConnection\<close> after the \<open>await\<close>. \<open>resp\<close> is the outcome of the request (a
  rejection ends the function: nothing catches it and nothing is rescheduled); \<open>placed\<close>
  is what \<open>newPeer.call\<close> does (\<open>Inl\<close>: it throws, which is caught and logged).
  \<open>currentCall\<close> is the binding of the render \<open>env\<close> that ran the effect.\<close>

definition attemptConnection_resume ::
  "render \<Rightarrow> peer_ref \<Rightarrow> stream_ref \<Rightarrow> string + status_response \<Rightarrow> string + call_ref \<Rightarrow> world \<Rightarrow> world" where
  "attemptConnection_resume env newPeer stream resp placed w =
    (case resp of
       Inl _ \<Rightarrow> w
     | Inr st \<Rightarrow>
         (case partnerPeer st of
            Some pid \<Rightarrow>
              (let w1 = setPartnerPeerId pid w
               in if currentCall env = None
                  then (case placed of
                          Inl _ \<Rightarrow> w1
                        | Inr c \<Rightarrow> setupCallHandlers c
                                    (w1\<lparr>broker := broker w1 @ [PeerCall newPeer pid stream]\<rparr>))
                  else w1)
          | None \<Rightarrow> w\<lparr>timers := timers w @ [DiscoveryTimeout]\<rparr>))"

text \<open>\<open>newPeer.on('open')\<close> (lines 87-132), in its three segments: up to
  \<open>await setupMediaStream()\<close>, from there to \<open>await updatePeerId(...)\<close>, and the rest.\<close>

definition peerOnOpen :: "peer_ref \<Rightarrow> world \<Rightarrow> world" where
  "peerOnOpen newPeer w = setConnectionStatus ''Connected to server'' (setPeer (Some newPeer) w)"

definition peerOnOpen_media :: "string \<Rightarrow> string \<Rightarrow> string + stream_ref \<Rightarrow> world \<Rightarrow> world" where
  "peerOnOpen_media sid pid gum w =
    (case setupMediaStream gum w of
       (None, w1) \<Rightarrow> w1
     | (Some s, w1) \<Rightarrow> w1\<lparr>api := api w1 @ [UpdatePeerId sid (Some pid)]\<rparr>)"

definition peerOnOpen_stored :: "string + unit \<Rightarrow> world \<Rightarrow> world" where
  "peerOnOpen_stored r w =
    (case r of
       Inl _ \<Rightarrow> setError ''Failed to connect with partner'' w
     | Inr _ \<Rightarrow> attemptConnection w)"

text \<open>The peer effect (lines 45-217, dependencies \<open>[user, sessionId]\<close>) and the cleanup
  it returns. The cleanup exists only when the effect got past its first line.\<close>

definition peerEffect :: "render \<Rightarrow> string \<Rightarrow> world \<Rightarrow> world" where
  "peerEffect env suffix w =
    (if user env = None \<or> \<not> truthy (sessionId env) then w
     else initializePeer (shown (sessionId env)) (shown (user env)) suffix w)"

definition peerEffectCleanup :: "render \<Rightarrow> world \<Rightarrow> world" where
  "peerEffectCleanup env w =
    (if user env = None \<or> \<not> truthy (sessionId env) then w
     else (let w1 = cleanupMedia env w
           in if truthy (sessionId env) \<and> user env \<noteq> None
              then w1\<lparr>api := api w1 @ [UpdatePeerId (shown (sessionId env)) None]\<rparr>
              else w1))"

subsection \<open>The session-authority effect\<close>

text \<open>\<open>checkSession\<close> (lines 223-239), up to its \<open>await\<close>.\<close>

definition checkSession :: "world \<Rightarrow> world" where
  "checkSession w =
    w\<lparr>api := api w @ [GetMatchmakingStatus], inflight := inflight w @ [SessionStatus]\<rparr>"

text \<open>\<open>checkSession\<close> after the \<open>await\<close>: \<open>resp\<close> is the outcome of the request, a
  rejection going to the \<open>catch\<close>. \<open>sessionId\<close> is the binding of the render \<open>env\<close> that
  ran the effect. \<open>if (status.timeLeft)\<close> is JavaScript truthiness of a number: defined
  and not zero. \<open>Math.floor(x / 1000)\<close> on a whole number of milliseconds is \<open>div\<close>, which
  rounds towards minus infinity as \<open>Math.floor\<close> does.\<close>

definition checkSession_resume :: "render \<Rightarrow> string + status_response \<Rightarrow> world \<Rightarrow> world" where
  "checkSession_resume env resp w =
    (case resp of
       Inl _ \<Rightarrow> setError ''Failed to verify session'' w
     | Inr st \<Rightarrow>
         (if r_status st \<noteq> ''in_session'' \<or> r_sessionId st \<noteq> sessionId env
          then routerPush ''/'' w
          else (case r_timeLeft st of
                  None \<Rightarrow> w
                | Some t \<Rightarrow> if t = 0 then w else setTimeLeft (t div 1000) w)))"

text \<open>The effect (lines 220-245, dependencies \<open>[sessionId, user, router]\<close>) and its
  cleanup, \<open>clearInterval(interval)\<close>.\<close>

definition sessionEffect :: "render \<Rightarrow> world \<Rightarrow> world" where
  "sessionEffect env w =
    (if user env = None \<or> \<not> truthy (sessionId env) then w
     else checkSession (w\<lparr>timers := timers w @ [SessionInterval]\<rparr>))"

definition sessionEffectCleanup :: "render \<Rightarrow> world \<Rightarrow> world" where
  "sessionEffectCleanup env w =
    (if user env = None \<or> \<not> truthy (sessionId env) then w
     else w\<lparr>timers := remove1 SessionInterval (timers w)\<rparr>)"

subsection \<open>The countdown effect\<close>

text \<open>The effect (lines 248-256, dependencies \<open>[timeLeft, sessionId, router]\<close>), run for
  the render \<open>env\<close>: its \<open>cleanupMedia\<close> is that render's.\<close>

definition timerEffect :: "render \<Rightarrow> world \<Rightarrow> world" where
  "timerEffect env w =
    (if timeLeft env \<le> 0
     then routerPush (''/chat/'' @ shown (sessionId env)) (cleanupMedia env w)
     else w\<lparr>timers := timers w @ [CountdownTimeout (timeLeft env)]\<rparr>)"

text \<open>Its cleanup: \<open>clearTimeout(timer)\<close>, returned only by a run that set the timeout,
  that is a run with a positive \<open>timeLeft\<close>.\<close>

definition timerEffectCleanup :: "world \<Rightarrow> world" where
  "timerEffectCleanup w =
    (case timerDeps w of
       None \<Rightarrow> w
     | Some (n, _) \<Rightarrow> if n \<le> 0 then w else w\<lparr>timers := remove1 (CountdownTimeout n) (timers w)\<rparr>)"

text \<open>
  What React does after a callback has written state: a mounted component renders again
  with the current state, and an effect whose dependencies differ from those of its last
  run is cleaned up and run again; a component that has been unmounted does not render.
  Of the three effects only the countdown effect depends on a state cell (\<open>timeLeft\<close>);
  \<open>router\<close> is taken to keep its identity during the visit, and a change of \<open>sessionId\<close>
  is \<open>routeChange\<close> below.
\<close>

definition commit :: "world \<Rightarrow> world" where
  "commit w =
    (let d = (timeLeft (page w), sessionId (page w))
     in if \<not> mounted w \<or> timerDeps w = Some d then w
        else (timerEffect (page w) (timerEffectCleanup w))\<lparr>timerDeps := Some d\<rparr>)"

subsection \<open>The event loop\<close>

text \<open>What each kind of timer runs when it fires; the countdown callback is
  \<open>setTimeLeft(timeLeft - 1)\<close> (line 253).\<close>

fun timerCallback :: "timer \<Rightarrow> world \<Rightarrow> world" where
  "timerCallback DiscoveryTimeout w = attemptConnection w"
| "timerCallback SessionInterval w = checkSession w"
| "timerCallback (CountdownTimeout n) w = setTimeLeft (n - 1) w"

text \<open>A timer fires only while it is pending. A timeout is spent by firing, an interval
  stays.\<close>

definition fireTimer :: "timer \<Rightarrow> world \<Rightarrow> world" where
  "fireTimer t w =
    (if t \<in> set (timers w)
     then commit (timerCallback t
            (if t = SessionInterval then w else w\<lparr>timers := remove1 t (timers w)\<rparr>))
     else w)"

text \<open>The backend answers a pending request, and the function waiting for it resumes.\<close>

definition answerSession :: "render \<Rightarrow> string + status_response \<Rightarrow> world \<Rightarrow> world" where
  "answerSession env resp w =
    (if SessionStatus \<in> set (inflight w)
     then commit (checkSession_resume env resp (w\<lparr>inflight := remove1 SessionStatus (inflight w)\<rparr>))
     else w)"

definition answerDiscovery ::
  "render \<Rightarrow> peer_ref \<Rightarrow> stream_ref \<Rightarrow> string + status_response \<Rightarrow> string + call_ref \<Rightarrow> world \<Rightarrow> world" where
  "answerDiscovery env newPeer stream resp placed w =
    (if DiscoveryStatus \<in> set (inflight w)
     then commit (attemptConnection_resume env newPeer stream resp placed
            (w\<lparr>inflight := remove1 DiscoveryStatus (inflight w)\<rparr>))
     else w)"

text \<open>One local tick: a second passes and the pending countdown timeout, if there is
  one, fires.\<close>

fun isCountdown :: "timer \<Rightarrow> bool" where
  "isCountdown (CountdownTimeout _) = True"
| "isCountdown _ = False"

definition tick :: "world \<Rightarrow> world" where
  "tick w = (case find isCountdown (timers w) of None \<Rightarrow> w | Some t \<Rightarrow> fireTimer t w)"

subsection \<open>Mounting and unmounting\<close>

text \<open>The first render binds the initial values of the \<open>useState\<close> calls (lines 12-28).\<close>

definition initialRender :: "string option \<Rightarrow> string option \<Rightarrow> render" where
  "initialRender sid uid =
    \<lparr>sessionId = sid, user = uid, timeLeft = 3600, error = None,
     connectionStatus = ''Initializing...'', peer = None, currentCall = None,
     localStream = None, isMuted = False, isVideoOff = False, partnerPeerId = None,
     remoteIsMuted = False, remoteIsVideoOff = False\<rparr>"

text \<open>The world at the first render: both video elements are attached and empty,
  nothing has been requested; \<open>heap\<close> holds the tracks of the streams \<open>getUserMedia\<close> can
  hand out.\<close>

definition initialWorld :: "string option \<Rightarrow> string option \<Rightarrow> (stream_ref \<Rightarrow> track list) \<Rightarrow> world" where
  "initialWorld sid uid heap =
    \<lparr>page = initialRender sid uid, streams = heap, localVideoRef = Some None,
     remoteVideoRef = Some None, closedCalls = {}, destroyedPeers = {}, broker = [],
     api = [], pushes = [], timers = [], inflight = [], peersMade = 0, timerDeps = None,
     mounted = True\<rparr>"

text \<open>After the first render the three effects run in the order they are written, each
  with the bindings of that render.\<close>

definition mount :: "string \<Rightarrow> world \<Rightarrow> world" where
  "mount suffix w =
    (let env = page w
     in (timerEffect env (sessionEffect env (peerEffect env suffix w)))
          \<lparr>timerDeps := Some (timeLeft env, sessionId env)\<rparr>)"

text \<open>Leaving the page unmounts the component and runs the cleanups of the three
  effects. Those of the peer and the session effect belong to the render \<open>env\<close> in which
  these effects ran last.\<close>

definition unmount :: "render \<Rightarrow> world \<Rightarrow> world" where
  "unmount env w =
    (timerEffectCleanup (sessionEffectCleanup env (peerEffectCleanup env w)))\<lparr>mounted := False\<rparr>"


subsection \<open>Well-formed timer lists\<close>

text \<open>
  What holds of the pending timers between two callbacks: the session interval is pending
  at most once, and the only countdown timeout pending is the one set by the last run of
  the countdown effect, if that run set one.
\<close>

definition timersOk :: "world \<Rightarrow> bool" where
  "timersOk w =
    (count_list (timers w) SessionInterval \<le> 1
     \<and> filter isCountdown (timers w) =
         (case timerDeps w of
            None \<Rightarrow> []
          | Some (n, _) \<Rightarrow> if 0 < n then [CountdownTimeout n] else []))"

text \<open>The world with everything the countdown owns blanked out; two worlds with the
  same image differ at most in \<open>timeLeft\<close>, the pending timers and \<open>timerDeps\<close>.\<close>

definition outsideCountdown :: "world \<Rightarrow> world" where
  "outsideCountdown w = w\<lparr>page := (page w)\<lparr>timeLeft := 0\<rparr>, timers := [], timerDeps := None\<rparr>"

subsection \<open>A visit, step by step\<close>

text \<open>
  A concrete visit, used to evaluate the model: user \<open>u1\<close> opens the call page of session
  \<open>s1\<close>; every stream has one audio and one video track. \<open>visitEnv\<close> are the bindings of
  the render that ran the peer and session effects, \<open>visitMounted\<close> the world after the
  effects have run, \<open>visitLive\<close> the world once the broker has opened the connection and
  the camera has been granted (stream 7).
\<close>

definition demoHeap :: "stream_ref \<Rightarrow> track list" where
  "demoHeap = (\<lambda>_. [\<lparr>kind = Audio, enabled = True, stopCalls = 0\<rparr>,
                     \<lparr>kind = Video, enabled = True, stopCalls = 0\<rparr>])"

definition visitEnv :: render where
  "visitEnv = initialRender (Some ''s1'') (Some ''u1'')"

definition visitMounted :: world where
  "visitMounted = mount ''abc'' (initialWorld (Some ''s1'') (Some ''u1'') demoHeap)"

definition visitLive :: world where
  "visitLive =
    peerOnOpen_media ''s1'' (myPeerId ''s1'' ''u1'' ''abc'') (Inr 7) (peerOnOpen 0 visitMounted)"

text \<open>A status response about partner \<open>u2\<close>.\<close>

definition statusOf :: "string \<Rightarrow> string \<Rightarrow> (string \<times> string) list \<Rightarrow> int option \<Rightarrow> status_response" where
  "statusOf st sid ids t =
    \<lparr>r_status = st, r_sessionId = Some sid, r_partnerId = Some ''u2'', r_peerIds = Some ids,
     r_timeLeft = t\<rparr>"

text \<open>\<open>visitPolling\<close>: the peer identifier has been stored and the first discovery poll
  found no partner yet, so the next poll is scheduled. \<open>visitSeeded\<close>: the first session
  check reported ten seconds left.\<close>

definition visitPolling :: world where
  "visitPolling =
    answerDiscovery visitEnv 0 7 (Inr (statusOf ''in_session'' ''s1'' [] (Some 3500000))) (Inr 1)
      (peerOnOpen_stored (Inr ()) visitLive)"

definition visitSeeded :: world where
  "visitSeeded = answerSession visitEnv (Inr (statusOf ''in_session'' ''s1'' [] (Some 10000))) visitLive"

text \<open>
  The visit goes on to session \<open>s2\<close>. \<open>againEnv\<close> are the bindings of the render that
  follows the route change (the state of \<open>visitLive\<close> with the new \<open>sessionId\<close>): the
  stream 7 and the first Peer are bound in it, no call is. \<open>visitAgain\<close> is the world
  after the effects have run again. \<open>visitReady\<close>: the broker has opened the second Peer,
  the open handler has captured once more (stream 8) and stored the new peer identifier.
  \<open>visitInCall\<close>: an inbound offer (call 1) has reached the handler registered by the
  second run of the peer effect, whose bindings are \<open>againEnv\<close>, and has been answered;
  the handlers of call 1 are created in that run too and hold the same bindings.
\<close>

definition againEnv :: render where
  "againEnv = (page visitLive)\<lparr>sessionId := Some ''s2''\<rparr>"




section \<open>Properties\<close>

subsection \<open>The concrete visit, evaluated\<close>

lemmas model_defs =
  mount_def initialWorld_def initialRender_def peerEffect_def sessionEffect_def timerEffect_def
  initializePeer_def myPeerId_def setPeer_def checkSession_def peerOnOpen_def peerOnOpen_media_def
  peerOnOpen_stored_def setupMediaStream_def setLocalStream_def setConnectionStatus_def
  setError_def setCurrentCall_def setTimeLeft_def setPartnerPeerId_def routerPush_def
  attemptConnection_def attemptConnection_resume_def partnerPeer_def peerOnCall_def
  setupCallHandlers_def callOnError_def callOnClose_def cleanupMedia_def stop_def
  checkSession_resume_def commit_def timerEffectCleanup_def sessionEffectCleanup_def
  peerEffectCleanup_def unmount_def fireTimer_def answerSession_def answerDiscovery_def tick_def

lemma visitLive_eq:
  "visitLive =
    \<lparr>page = \<lparr>sessionId = Some ''s1'', user = Some ''u1'', timeLeft = 3600, error = None,
             connectionStatus = ''Connected to server'', peer = Some 0, currentCall = None,
             localStream = Some 7, isMuted = False, isVideoOff = False, partnerPeerId = None,
             remoteIsMuted = False, remoteIsVideoOff = False\<rparr>,
     streams = demoHeap, localVideoRef = Some (Some 7), remoteVideoRef = Some None,
     closedCalls = {}, destroyedPeers = {}, broker = [NewPeer ''s1-u1-abc''],
     api = [GetMatchmakingStatus, UpdatePeerId ''s1'' (Some ''s1-u1-abc'')],
     pushes = [], timers = [SessionInterval, CountdownTimeout 3600],
     inflight = [SessionStatus], peersMade = 1, timerDeps = Some (3600, Some ''s1''),
     mounted = True\<rparr>"
  by (simp add: visitLive_def visitMounted_def model_defs)

lemma visitLive_fields:
  "pushes visitLive = []" "timeLeft (page visitLive) = 3600" "error (page visitLive) = None"
  "broker visitLive = [NewPeer ''s1-u1-abc'']"
  by (simp_all add: visitLive_eq)

lemma visitSeeded_eq:
  "visitSeeded =
    \<lparr>page = \<lparr>sessionId = Some ''s1'', user = Some ''u1'', timeLeft = 10, error = None,
             connectionStatus = ''Connected to server'', peer = Some 0, currentCall = None,
             localStream = Some 7, isMuted = False, isVideoOff = False, partnerPeerId = None,
             remoteIsMuted = False, remoteIsVideoOff = False\<rparr>,
     streams = demoHeap, localVideoRef = Some (Some 7), remoteVideoRef = Some None,
     closedCalls = {}, destroyedPeers = {}, broker = [NewPeer ''s1-u1-abc''],
     api = [GetMatchmakingStatus, UpdatePeerId ''s1'' (Some ''s1-u1-abc'')],
     pushes = [], timers = [SessionInterval, CountdownTimeout 10],
     inflight = [], peersMade = 1, timerDeps = Some (10, Some ''s1''),
     mounted = True\<rparr>"
  by (simp add: visitSeeded_def visitLive_eq visitEnv_def statusOf_def model_defs)

lemma visitPolling_eq:
  "visitPolling =
    \<lparr>page = \<lparr>sessionId = Some ''s1'', user = Some ''u1'', timeLeft = 3600, error = None,
             connectionStatus = ''Connected to server'', peer = Some 0, currentCall = None,
             localStream = Some 7, isMuted = False, isVideoOff = False, partnerPeerId = None,
             remoteIsMuted = False, remoteIsVideoOff = False\<rparr>,
     streams = demoHeap, localVideoRef = Some (Some 7), remoteVideoRef = Some None,
     closedCalls = {}, destroyedPeers = {}, broker = [NewPeer ''s1-u1-abc''],
     api = [GetMatchmakingStatus, UpdatePeerId ''s1'' (Some ''s1-u1-abc''), GetMatchmakingStatus],
     pushes = [], timers = [SessionInterval, CountdownTimeout 3600, DiscoveryTimeout],
     inflight = [SessionStatus], peersMade = 1, timerDeps = Some (3600, Some ''s1''),
     mounted = True\<rparr>"
  by (simp add: visitPolling_def visitLive_eq visitEnv_def statusOf_def model_defs)


lemma againEnv_is_rerun_render:
  "againEnv = page (visitLive\<lparr>page := (page visitLive)\<lparr>sessionId := Some ''s2''\<rparr>\<rparr>)"
  by (simp add: againEnv_def)




subsection \<open>The media toggles\<close>

lemma flipIf_twice: "flipIf k (flipIf k t) = t"
  by (simp add: flipIf_def)

lemma flipIf_comp: "flipIf k \<circ> flipIf k = id"
  by (rule ext) (simp add: flipIf_twice)

lemma toggleMute_twice: "toggleMute (page (toggleMute (page w) w)) (toggleMute (page w) w) = w"
  by (cases "localStream (page w)")
     (simp_all add: toggleMute_def setIsMuted_def flipIf_comp)

lemma toggleMute_broker: "broker (toggleMute env w) = broker w"
  by (simp add: toggleMute_def setIsMuted_def split: option.splits)

text \<open>
  Claim C7. Whatever the \<open>enabled\<close> flag of the local audio track is to begin with, two
  clicks on the mute button bring it back (and with it the \<open>isMuted\<close> indicator, in
  fact the whole world), and neither click invokes anything on the signalling library.
\<close>

theorem C7_mute_toggle_twice:
  "clickMute (clickMute w) = w
   \<and> map enabled (streams (clickMute (clickMute w)) s) = map enabled (streams w s)
   \<and> isMuted (page (clickMute (clickMute w))) = isMuted (page w)
   \<and> broker (clickMute w) = broker w
   \<and> broker (clickMute (clickMute w)) = broker w"
  by (simp add: clickMute_def toggleMute_twice toggleMute_broker)

text \<open>
  Claim C9. While there is no local stream (\<open>localStream\<close> is null), a click on the
  mute button or on the video button changes nothing at all: not \<open>isMuted\<close>, not
  \<open>isVideoOff\<close>, no track, no other part of the world.
\<close>

theorem C9_toggles_without_stream:
  assumes "localStream (page w) = None"
  shows "clickMute w = w \<and> clickVideo w = w"
  using assms by (simp add: clickMute_def clickVideo_def toggleMute_def toggleVideo_def)

theorem C9_toggles_without_stream_witness:
  "localStream (page (initialWorld (Some ''s1'') (Some ''u1'') (\<lambda>_. []))) = None
   \<and> clickMute (initialWorld (Some ''s1'') (Some ''u1'') (\<lambda>_. []))
       = initialWorld (Some ''s1'') (Some ''u1'') (\<lambda>_. [])
   \<and> clickVideo (initialWorld (Some ''s1'') (Some ''u1'') (\<lambda>_. []))
       = initialWorld (Some ''s1'') (Some ''u1'') (\<lambda>_. [])"
proof -
  have h: "localStream (page (initialWorld (Some ''s1'') (Some ''u1'') (\<lambda>_. []))) = None"
    by (simp add: initialWorld_def initialRender_def)
  from C9_toggles_without_stream [OF h] h show ?thesis by simp
qed

subsection \<open>Call racing\<close>

text \<open>
  Claim C1 (at most one call per visit), evaluated on the concrete visit. The handlers
  were registered by the render \<open>visitEnv\<close>, in which \<open>currentCall\<close> is null. An inbound
  offer (call 1) is answered and \<open>currentCall\<close> becomes call 1; the discovery poll then
  finds the partner and an outbound call is placed all the same; a second inbound offer
  (call 3) is answered as well. Three calls have been accepted or placed.
\<close>

theorem C1_three_calls_accepted:
  "currentCall (page (peerOnCall visitEnv 1 (Inr 8) visitLive)) = Some 1
   \<and> broker (peerOnCall visitEnv 3 (Inr 9)
        (attemptConnection_resume visitEnv 0 7
           (Inr (statusOf ''in_session'' ''s1'' [(''u2'', ''s1-u2-xyz'')] None)) (Inr 2)
           (peerOnCall visitEnv 1 (Inr 8) visitLive)))
     = [NewPeer ''s1-u1-abc'', Answer 1 8, PeerCall 0 ''s1-u2-xyz'' 7, Answer 3 9]"
  by (simp add: visitLive_eq visitEnv_def statusOf_def model_defs)

subsection \<open>cleanupMedia\<close>

lemma cleanupMedia_timers [simp]:
  "timers (cleanupMedia env w) = timers w"
  "timerDeps (cleanupMedia env w) = timerDeps w"
  "inflight (cleanupMedia env w) = inflight w"
  "pushes (cleanupMedia env w) = pushes w"
  "broker (cleanupMedia env w) = broker w"
  "api (cleanupMedia env w) = api w"
  by (simp_all add: cleanupMedia_def setLocalStream_def setCurrentCall_def Let_def split: option.splits)

lemma cleanupMedia_streams:
  "streams (cleanupMedia env w) =
    (case localStream env of None \<Rightarrow> streams w | Some s \<Rightarrow> (streams w)(s := map stop (streams w s)))"
  by (simp add: cleanupMedia_def setLocalStream_def setCurrentCall_def Let_def split: option.splits)

lemma cleanupMedia_page:
  "page (cleanupMedia env w) =
    (page w)\<lparr>localStream := (case localStream env of None \<Rightarrow> localStream (page w) | Some _ \<Rightarrow> None),
             currentCall := (case currentCall env of None \<Rightarrow> currentCall (page w) | Some _ \<Rightarrow> None)\<rparr>"
  by (simp add: cleanupMedia_def setLocalStream_def setCurrentCall_def Let_def split: option.splits)

lemma cleanupMedia_closed:
  "closedCalls (cleanupMedia env w) =
    (case currentCall env of None \<Rightarrow> closedCalls w | Some c \<Rightarrow> insert c (closedCalls w))"
  "destroyedPeers (cleanupMedia env w) =
    (case peer env of None \<Rightarrow> destroyedPeers w | Some p \<Rightarrow> insert p (destroyedPeers w))"
  by (simp_all add: cleanupMedia_def setLocalStream_def setCurrentCall_def Let_def split: option.splits)

lemma cleanupMedia_fresh_idempotent:
  "cleanupMedia (page (cleanupMedia (page w) w)) (cleanupMedia (page w) w) = cleanupMedia (page w) w"
  by (cases "localStream (page w)"; cases "currentCall (page w)"; cases "peer (page w)";
      cases "localVideoRef w"; cases "remoteVideoRef w")
     (simp_all add: cleanupMedia_def setLocalStream_def setCurrentCall_def)




text \<open>
  Claim C8 (teardown stops every local track exactly once), evaluated on the concrete
  visit. The cleanup of the peer effect and the call's error handler both belong to the
  render \<open>visitEnv\<close>, in which \<open>localStream\<close> is null: leaving the page, with or without
  a call error before it, stops no track of the live stream 7. With handlers of a render
  that had the stream bound, two teardowns invoke \<open>stop()\<close> twice on each track.
\<close>

theorem C8_tracks_never_stopped:
  "localStream (page visitLive) = Some 7
   \<and> map stopCalls (streams (unmount visitEnv visitLive) 7) = [0, 0]
   \<and> map stopCalls (streams (unmount visitEnv (callOnError visitEnv visitLive)) 7) = [0, 0]
   \<and> map stopCalls (streams (cleanupMedia (page visitLive) (cleanupMedia (page visitLive) visitLive)) 7) = [2, 2]"
  by (simp add: visitLive_eq visitEnv_def demoHeap_def model_defs)

subsection \<open>Session authority\<close>

text \<open>
  Claim C5. When a session check is answered with a status other than \<open>in_session\<close> or
  with a session identifier other than the page's, the page navigates to \<open>/\<close> at once,
  whatever the countdown shows, and the countdown is not updated from that response.
\<close>

theorem C5_authority_override:
  assumes "r_status st \<noteq> ''in_session'' \<or> r_sessionId st \<noteq> sessionId env"
  shows "checkSession_resume env (Inr st) w = routerPush ''/'' w
       \<and> pushes (checkSession_resume env (Inr st) w) = pushes w @ [''/'']
       \<and> timeLeft (page (checkSession_resume env (Inr st) w)) = timeLeft (page w)"
  using assms by (auto simp: checkSession_resume_def routerPush_def)

theorem C5_authority_override_witness:
  "r_sessionId (statusOf ''in_session'' ''s2'' [] (Some 400000)) \<noteq> sessionId visitEnv
   \<and> pushes (checkSession_resume visitEnv (Inr (statusOf ''in_session'' ''s2'' [] (Some 400000))) visitLive) = [''/'']
   \<and> timeLeft (page (checkSession_resume visitEnv (Inr (statusOf ''in_session'' ''s2'' [] (Some 400000))) visitLive)) = 3600"
proof -
  have h: "r_status (statusOf ''in_session'' ''s2'' [] (Some 400000)) \<noteq> ''in_session''
     \<or> r_sessionId (statusOf ''in_session'' ''s2'' [] (Some 400000)) \<noteq> sessionId visitEnv"
    by (simp add: statusOf_def visitEnv_def initialRender_def)
  from C5_authority_override [OF h, of visitLive]
  have "pushes (checkSession_resume visitEnv (Inr (statusOf ''in_session'' ''s2'' [] (Some 400000))) visitLive)
          = pushes visitLive @ [''/'']"
    and "timeLeft (page (checkSession_resume visitEnv (Inr (statusOf ''in_session'' ''s2'' [] (Some 400000))) visitLive))
          = timeLeft (page visitLive)"
    by blast+
  moreover have "r_sessionId (statusOf ''in_session'' ''s2'' [] (Some 400000)) \<noteq> sessionId visitEnv"
    by (simp add: statusOf_def visitEnv_def initialRender_def)
  ultimately show ?thesis by (simp add: visitLive_fields)
qed

text \<open>
  Claim C10 as stated fails: a reported \<open>timeLeft\<close> of -5000 is not strictly positive,
  yet it resynchronises the countdown, to -5.
\<close>

theorem C10_counterexample:
  "\<not> 0 < (- 5000 :: int)
   \<and> timeLeft (page visitLive) = 3600
   \<and> timeLeft (page (checkSession_resume visitEnv
        (Inr (statusOf ''in_session'' ''s1'' [] (Some (- 5000)))) visitLive)) = - 5"
  by (simp add: visitLive_eq visitEnv_def statusOf_def model_defs)

text \<open>
  Claim C10, amended. A session check answered with \<open>in_session\<close> and the page's session
  identifier leaves the countdown unchanged when \<open>timeLeft\<close> is absent or exactly 0; any
  other reported \<open>timeLeft\<close>, positive or negative, sets the countdown to the floor of
  \<open>timeLeft / 1000\<close>. No navigation happens.
\<close>

theorem C10_resync_nonzero:
  assumes "r_status st = ''in_session''" and "r_sessionId st = sessionId env"
  shows "timeLeft (page (checkSession_resume env (Inr st) w)) =
           (case r_timeLeft st of
              None \<Rightarrow> timeLeft (page w)
            | Some t \<Rightarrow> if t = 0 then timeLeft (page w) else t div 1000)
       \<and> pushes (checkSession_resume env (Inr st) w) = pushes w"
  using assms by (simp add: checkSession_resume_def setTimeLeft_def split: option.splits)

theorem C10_resync_nonzero_witness:
  "r_status (statusOf ''in_session'' ''s1'' [] (Some 7500)) = ''in_session''
   \<and> r_sessionId (statusOf ''in_session'' ''s1'' [] (Some 7500)) = sessionId visitEnv
   \<and> timeLeft (page (checkSession_resume visitEnv (Inr (statusOf ''in_session'' ''s1'' [] (Some 7500))) visitLive)) = 7
   \<and> timeLeft (page (checkSession_resume visitEnv (Inr (statusOf ''in_session'' ''s1'' [] (Some 0))) visitLive)) = 3600
   \<and> timeLeft (page (checkSession_resume visitEnv (Inr (statusOf ''in_session'' ''s1'' [] None)) visitLive)) = 3600"
proof -
  have a: "r_status (statusOf ''in_session'' ''s1'' [] t) = ''in_session''" for t
    by (simp add: statusOf_def)
  have b: "r_sessionId (statusOf ''in_session'' ''s1'' [] t) = sessionId visitEnv" for t
    by (simp add: statusOf_def visitEnv_def initialRender_def)
  have c: "r_timeLeft (statusOf ''in_session'' ''s1'' [] t) = t" for t
    by (simp add: statusOf_def)
  have "timeLeft (page (checkSession_resume visitEnv (Inr (statusOf ''in_session'' ''s1'' [] (Some 7500))) visitLive)) = 7"
    using C10_resync_nonzero [OF a b, where w = visitLive and t1 = "Some 7500"] by (simp add: c)
  moreover
  have "timeLeft (page (checkSession_resume visitEnv (Inr (statusOf ''in_session'' ''s1'' [] (Some 0))) visitLive)) = 3600"
    using C10_resync_nonzero [OF a b, where w = visitLive and t1 = "Some 0"] by (simp add: c visitLive_fields)
  moreover
  have "timeLeft (page (checkSession_resume visitEnv (Inr (statusOf ''in_session'' ''s1'' [] None)) visitLive)) = 3600"
    using C10_resync_nonzero [OF a b, where w = visitLive and t1 = None] by (simp add: c visitLive_fields)
  ultimately show ?thesis using a b by simp
qed

subsection \<open>Registration errors\<close>

text \<open>
  Claim C6. On the broker error \<open>unavailable-id\<close> a Peer is constructed again, under an
  identifier built from a new random suffix, and the error shown to the user is left as
  it was; on any other error type ``Connection error: type'' is shown and nothing is
  retried: no Peer is constructed and no timer is set.
\<close>

theorem C6_registration_errors:
  "(etype = ''unavailable-id'' \<longrightarrow>
      broker (peerOnError sid uid etype suffix w) = broker w @ [NewPeer (myPeerId sid uid suffix)]
      \<and> peer (page (peerOnError sid uid etype suffix w)) = Some (peersMade w)
      \<and> error (page (peerOnError sid uid etype suffix w)) = error (page w))
   \<and> (etype \<noteq> ''unavailable-id'' \<longrightarrow>
      peerOnError sid uid etype suffix w = setError (''Connection error: '' @ etype) w
      \<and> error (page (peerOnError sid uid etype suffix w)) = Some (''Connection error: '' @ etype)
      \<and> broker (peerOnError sid uid etype suffix w) = broker w
      \<and> peersMade (peerOnError sid uid etype suffix w) = peersMade w
      \<and> timers (peerOnError sid uid etype suffix w) = timers w)"
  by (simp add: peerOnError_def initializePeer_def setPeer_def setError_def)

theorem C6_registration_errors_witness:
  "broker (peerOnError ''s1'' ''u1'' ''unavailable-id'' ''xyz'' visitLive)
     = [NewPeer ''s1-u1-abc'', NewPeer ''s1-u1-xyz'']
   \<and> error (page (peerOnError ''s1'' ''u1'' ''unavailable-id'' ''xyz'' visitLive)) = None
   \<and> ''network'' \<noteq> ''unavailable-id''
   \<and> error (page (peerOnError ''s1'' ''u1'' ''network'' ''xyz'' visitLive)) = Some ''Connection error: network''
   \<and> broker (peerOnError ''s1'' ''u1'' ''network'' ''xyz'' visitLive) = [NewPeer ''s1-u1-abc'']"
proof -
  have ne: "''network'' \<noteq> ''unavailable-id''" by simp
  from C6_registration_errors [of "''unavailable-id''" "''s1''" "''u1''" "''xyz''" visitLive]
  have "broker (peerOnError ''s1'' ''u1'' ''unavailable-id'' ''xyz'' visitLive)
          = broker visitLive @ [NewPeer (myPeerId ''s1'' ''u1'' ''xyz'')]"
    and "error (page (peerOnError ''s1'' ''u1'' ''unavailable-id'' ''xyz'' visitLive)) = error (page visitLive)"
    by blast+
  moreover
  from C6_registration_errors [of "''network''" "''s1''" "''u1''" "''xyz''" visitLive] ne
  have "error (page (peerOnError ''s1'' ''u1'' ''network'' ''xyz'' visitLive))
          = Some (''Connection error: '' @ ''network'')"
    and "broker (peerOnError ''s1'' ''u1'' ''network'' ''xyz'' visitLive) = broker visitLive"
    by blast+
  ultimately show ?thesis
    using ne by (simp add: visitLive_fields myPeerId_def)
qed

subsection \<open>Teardown and the timers\<close>

lemma find_of_filter_single: "filter P xs = [x] \<Longrightarrow> find P xs = Some x"
  by (induction xs) (auto split: if_splits)

lemma count_list_remove1_other: "x \<noteq> y \<Longrightarrow> count_list (remove1 y xs) x = count_list xs x"
  by (induction xs) auto

lemma count_le1_remove1: "count_list xs x \<le> 1 \<Longrightarrow> x \<notin> set (remove1 x xs)"
  by (induction xs) (auto simp: count_list_0_iff)

lemma no_countdown_after_remove1:
  assumes "filter isCountdown ts = [CountdownTimeout n]"
  shows "filter isCountdown (remove1 (CountdownTimeout n) ts) = []"
proof -
  have "filter isCountdown (remove1 (CountdownTimeout n) ts)
        = remove1 (CountdownTimeout n) (filter isCountdown ts)"
    by (simp add: filter_remove1)
  with assms show ?thesis by simp
qed

lemma unmount_timers:
  assumes "user env \<noteq> None" and "truthy (sessionId env)"
  shows "timers (unmount env w) =
    (case timerDeps w of
       None \<Rightarrow> remove1 SessionInterval (timers w)
     | Some (n, _) \<Rightarrow> if n \<le> 0 then remove1 SessionInterval (timers w)
                     else remove1 (CountdownTimeout n) (remove1 SessionInterval (timers w)))"
  using assms
  by (auto simp: unmount_def timerEffectCleanup_def sessionEffectCleanup_def peerEffectCleanup_def
        Let_def split: option.splits)

lemma unmount_inflight: "inflight (unmount env w) = inflight w"
  by (simp add: unmount_def timerEffectCleanup_def sessionEffectCleanup_def peerEffectCleanup_def
        Let_def split: option.splits)

lemma unmount_no_interval:
  assumes "user env \<noteq> None" and "truthy (sessionId env)" and "timersOk w"
  shows "SessionInterval \<notin> set (timers (unmount env w))"
proof -
  from assms(3) have "count_list (timers w) SessionInterval \<le> 1"
    by (simp add: timersOk_def)
  then have "SessionInterval \<notin> set (remove1 SessionInterval (timers w))"
    by (rule count_le1_remove1)
  then show ?thesis
    by (simp add: unmount_timers [OF assms(1,2)] split: option.splits)
qed

lemma unmount_no_countdown:
  assumes "user env \<noteq> None" and "truthy (sessionId env)" and "timersOk w"
  shows "filter isCountdown (timers (unmount env w)) = []"
proof -
  have keep: "filter isCountdown (remove1 SessionInterval (timers w)) = filter isCountdown (timers w)"
    by (simp add: filter_remove1)
  show ?thesis
  proof (cases "timerDeps w")
    case None
    with assms(3) keep show ?thesis
      by (simp add: unmount_timers [OF assms(1,2)] timersOk_def)
  next
    case (Some d)
    obtain n sid where d: "d = (n, sid)" by (cases d)
    show ?thesis
    proof (cases "n \<le> 0")
      case True
      with assms(3) keep Some d show ?thesis
        by (simp add: unmount_timers [OF assms(1,2)] timersOk_def)
    next
      case False
      with assms(3) Some d have "filter isCountdown (timers w) = [CountdownTimeout n]"
        by (simp add: timersOk_def)
      with keep have "filter isCountdown (remove1 SessionInterval (timers w)) = [CountdownTimeout n]"
        by simp
      then have "filter isCountdown (remove1 (CountdownTimeout n) (remove1 SessionInterval (timers w))) = []"
        by (rule no_countdown_after_remove1)
      with False Some d show ?thesis
        by (simp add: unmount_timers [OF assms(1,2)])
    qed
  qed
qed

lemma tick_without_countdown:
  assumes "filter isCountdown (timers w) = []"
  shows "tick w = w"
proof -
  from assms have "find isCountdown (timers w) = None"
    by (simp add: find_None_iff filter_empty_conv)
  then show ?thesis by (simp add: tick_def)
qed

lemma answerSession_unmounted_timers:
  "\<not> mounted w \<Longrightarrow> timers (answerSession env resp w) = timers w"
  by (simp add: answerSession_def commit_def checkSession_resume_def setError_def routerPush_def
        setTimeLeft_def split: sum.splits option.splits)

lemma unmount_unmounted: "\<not> mounted (unmount env w)"
  by (simp add: unmount_def)

text \<open>
  Claim C3 as stated fails: after the page has been left, the partner-discovery timeout
  is still pending and its firing sends a status request; and the session check that was
  in flight still runs its continuation, which navigates to \<open>/\<close>.
\<close>

theorem C3_counterexample:
  "DiscoveryTimeout \<in> set (timers (unmount visitEnv visitPolling))
   \<and> api (fireTimer DiscoveryTimeout (unmount visitEnv visitPolling))
       = api (unmount visitEnv visitPolling) @ [GetMatchmakingStatus]
   \<and> SessionStatus \<in> set (inflight (unmount visitEnv visitPolling))
   \<and> pushes (unmount visitEnv visitPolling) = []
   \<and> pushes (answerSession visitEnv (Inr (statusOf ''idle'' ''s1'' [] None))
        (unmount visitEnv visitPolling)) = [''/'']"
  by (simp add: visitPolling_def visitLive_eq visitEnv_def statusOf_def model_defs)

text \<open>
  Claim C3, amended. Leaving the page cancels the session-authority interval and the
  pending countdown timeout, so neither fires again, also not after a session check has
  been answered; requests already in flight are not cancelled.
\<close>

theorem C3_teardown_cancels_own_timers:
  assumes "user env \<noteq> None" and "truthy (sessionId env)" and "timersOk w"
  shows "SessionInterval \<notin> set (timers (unmount env w))
       \<and> fireTimer SessionInterval (unmount env w) = unmount env w
       \<and> filter isCountdown (timers (unmount env w)) = []
       \<and> tick (unmount env w) = unmount env w
       \<and> SessionInterval \<notin> set (timers (answerSession env resp (unmount env w)))
       \<and> filter isCountdown (timers (answerSession env resp (unmount env w))) = []
       \<and> inflight (unmount env w) = inflight w"
proof -
  have a: "SessionInterval \<notin> set (timers (unmount env w))"
    using assms by (rule unmount_no_interval)
  have b: "filter isCountdown (timers (unmount env w)) = []"
    using assms by (rule unmount_no_countdown)
  from a have c: "fireTimer SessionInterval (unmount env w) = unmount env w"
    by (simp add: fireTimer_def)
  from b have d: "tick (unmount env w) = unmount env w"
    by (rule tick_without_countdown)
  have e: "timers (answerSession env resp (unmount env w)) = timers (unmount env w)"
    using unmount_unmounted by (rule answerSession_unmounted_timers)
  from a b c d e show ?thesis
    by (simp add: unmount_inflight)
qed

theorem C3_teardown_cancels_own_timers_witness:
  "user visitEnv \<noteq> None \<and> truthy (sessionId visitEnv) \<and> timersOk visitPolling
   \<and> SessionInterval \<notin> set (timers (unmount visitEnv visitPolling))
   \<and> fireTimer SessionInterval (unmount visitEnv visitPolling) = unmount visitEnv visitPolling
   \<and> tick (unmount visitEnv visitPolling) = unmount visitEnv visitPolling
   \<and> inflight (unmount visitEnv visitPolling) = [SessionStatus]"
proof -
  have h1: "user visitEnv \<noteq> None" by (simp add: visitEnv_def initialRender_def)
  have h2: "truthy (sessionId visitEnv)" by (simp add: visitEnv_def initialRender_def)
  have h3: "timersOk visitPolling" by (simp add: visitPolling_eq timersOk_def)
  from C3_teardown_cancels_own_timers [OF h1 h2 h3] h1 h2 h3 show ?thesis
    by (simp add: visitPolling_eq)
qed

subsection \<open>The countdown\<close>

lemma countdown_pending:
  assumes "timersOk w" and "timerDeps w = Some (n, sid)" and "0 < n"
  shows "filter isCountdown (timers w) = [CountdownTimeout n]"
  using assms by (simp add: timersOk_def)

lemma tick_fires:
  assumes "timersOk w" and "timerDeps w = Some (n, sid)" and "0 < n"
  shows "tick w = commit (setTimeLeft (n - 1) (w\<lparr>timers := remove1 (CountdownTimeout n) (timers w)\<rparr>))"
proof -
  have f: "filter isCountdown (timers w) = [CountdownTimeout n]"
    using assms by (rule countdown_pending)
  then have "find isCountdown (timers w) = Some (CountdownTimeout n)"
    by (rule find_of_filter_single)
  moreover have "CountdownTimeout n \<in> set (filter isCountdown (timers w))"
    by (simp add: f)
  then have "CountdownTimeout n \<in> set (timers w)"
    by simp
  ultimately show ?thesis
    by (simp add: tick_def fireTimer_def)
qed

lemma tick_running:
  assumes live: "mounted w" and ok: "timersOk w"
    and deps: "timerDeps w = Some (n, sessionId (page w))" and n: "1 < n"
  shows "tick w = w\<lparr>page := (page w)\<lparr>timeLeft := n - 1\<rparr>,
                    timers := remove1 (CountdownTimeout n) (timers w) @ [CountdownTimeout (n - 1)],
                    timerDeps := Some (n - 1, sessionId (page w))\<rparr>"
proof -
  from n have pos: "0 < n" by simp
  have gone: "filter isCountdown (remove1 (CountdownTimeout n) (timers w)) = []"
    using countdown_pending [OF ok deps pos] by (rule no_countdown_after_remove1)
  then have "CountdownTimeout n \<notin> set (remove1 (CountdownTimeout n) (timers w))"
    by (auto simp: filter_empty_conv)
  then have idem: "remove1 (CountdownTimeout n) (remove1 (CountdownTimeout n) (timers w))
                   = remove1 (CountdownTimeout n) (timers w)"
    by (rule remove1_idem)
  show ?thesis
    using live n deps idem
    by (simp add: tick_fires [OF ok deps pos] commit_def setTimeLeft_def timerEffectCleanup_def
          timerEffect_def)
qed

lemma tick_running_ok:
  assumes live: "mounted w" and ok: "timersOk w"
    and deps: "timerDeps w = Some (n, sessionId (page w))" and n: "1 < n"
  shows "timersOk (tick w)"
proof -
  from n have pos: "0 < n" by simp
  have gone: "filter isCountdown (remove1 (CountdownTimeout n) (timers w)) = []"
    using countdown_pending [OF ok deps pos] by (rule no_countdown_after_remove1)
  have cnt: "count_list (remove1 (CountdownTimeout n) (timers w)) SessionInterval
             = count_list (timers w) SessionInterval"
    by (simp add: count_list_remove1_other)
  from ok have "count_list (timers w) SessionInterval \<le> 1"
    by (simp add: timersOk_def)
  with gone cnt n show ?thesis
    by (simp add: tick_running [OF live ok deps n] timersOk_def)
qed

lemma tick_last:
  assumes live: "mounted w" and ok: "timersOk w"
    and deps: "timerDeps w = Some (1, sessionId (page w))"
  shows "tick w =
    (routerPush (''/chat/'' @ shown (sessionId (page w)))
       (cleanupMedia ((page w)\<lparr>timeLeft := 0\<rparr>)
          (w\<lparr>page := (page w)\<lparr>timeLeft := 0\<rparr>,
             timers := remove1 (CountdownTimeout 1) (timers w)\<rparr>)))
      \<lparr>timerDeps := Some (0, sessionId (page w))\<rparr>"
proof -
  have pos: "0 < (1::int)" by simp
  have gone: "filter isCountdown (remove1 (CountdownTimeout 1) (timers w)) = []"
    using countdown_pending [OF ok deps pos] by (rule no_countdown_after_remove1)
  then have "CountdownTimeout 1 \<notin> set (remove1 (CountdownTimeout 1) (timers w))"
    by (auto simp: filter_empty_conv)
  then have idem: "remove1 (CountdownTimeout 1) (remove1 (CountdownTimeout 1) (timers w))
                   = remove1 (CountdownTimeout 1) (timers w)"
    by (rule remove1_idem)
  show ?thesis
    using live deps idem
    by (simp add: tick_fires [OF ok deps pos] commit_def setTimeLeft_def timerEffectCleanup_def
          timerEffect_def)
qed

lemma outsideCountdown_tick_running:
  assumes live: "mounted w" and ok: "timersOk w"
    and deps: "timerDeps w = Some (n, sessionId (page w))" and n: "1 < n"
  shows "outsideCountdown (tick w) = outsideCountdown w"
  by (simp add: tick_running [OF live ok deps n] outsideCountdown_def)

lemma outside_fields:
  assumes "outsideCountdown a = outsideCountdown b"
  shows "pushes a = pushes b" and "streams a = streams b" and "closedCalls a = closedCalls b"
    and "destroyedPeers a = destroyedPeers b" and "broker a = broker b"
    and "sessionId (page a) = sessionId (page b)" and "localStream (page a) = localStream (page b)"
    and "currentCall (page a) = currentCall (page b)" and "peer (page a) = peer (page b)"
    and "mounted a = mounted b"
proof -
  have "pushes (outsideCountdown a) = pushes (outsideCountdown b)" using assms by simp
  then show "pushes a = pushes b" by (simp add: outsideCountdown_def)
  have "streams (outsideCountdown a) = streams (outsideCountdown b)" using assms by simp
  then show "streams a = streams b" by (simp add: outsideCountdown_def)
  have "closedCalls (outsideCountdown a) = closedCalls (outsideCountdown b)" using assms by simp
  then show "closedCalls a = closedCalls b" by (simp add: outsideCountdown_def)
  have "destroyedPeers (outsideCountdown a) = destroyedPeers (outsideCountdown b)" using assms by simp
  then show "destroyedPeers a = destroyedPeers b" by (simp add: outsideCountdown_def)
  have "broker (outsideCountdown a) = broker (outsideCountdown b)" using assms by simp
  then show "broker a = broker b" by (simp add: outsideCountdown_def)
  have p: "page (outsideCountdown a) = page (outsideCountdown b)" using assms by simp
  then have "sessionId (page (outsideCountdown a)) = sessionId (page (outsideCountdown b))" by simp
  then show "sessionId (page a) = sessionId (page b)" by (simp add: outsideCountdown_def)
  from p have "localStream (page (outsideCountdown a)) = localStream (page (outsideCountdown b))" by simp
  then show "localStream (page a) = localStream (page b)" by (simp add: outsideCountdown_def)
  from p have "currentCall (page (outsideCountdown a)) = currentCall (page (outsideCountdown b))" by simp
  then show "currentCall (page a) = currentCall (page b)" by (simp add: outsideCountdown_def)
  from p have "peer (page (outsideCountdown a)) = peer (page (outsideCountdown b))" by simp
  then show "peer (page a) = peer (page b)" by (simp add: outsideCountdown_def)
  have "mounted (outsideCountdown a) = mounted (outsideCountdown b)" using assms by simp
  then show "mounted a = mounted b" by (simp add: outsideCountdown_def)
qed

lemma ticks_running:
  assumes "mounted w" and "timersOk w" and "timerDeps w = Some (n, sessionId (page w))"
    and "timeLeft (page w) = n" and "int k < n"
  shows "timersOk ((tick ^^ k) w)
       \<and> timerDeps ((tick ^^ k) w) = Some (n - int k, sessionId (page ((tick ^^ k) w)))
       \<and> timeLeft (page ((tick ^^ k) w)) = n - int k
       \<and> outsideCountdown ((tick ^^ k) w) = outsideCountdown w"
  using assms(5)
proof (induction k)
  case 0
  from assms(2-4) show ?case by simp
next
  case (Suc k)
  let ?v = "(tick ^^ k) w"
  from Suc.prems have "int k < n" by simp
  with Suc.IH have ok: "timersOk ?v"
    and deps: "timerDeps ?v = Some (n - int k, sessionId (page ?v))"
    and out: "outsideCountdown ?v = outsideCountdown w"
    by simp_all
  from Suc.prems have more: "1 < n - int k" by simp
  from outside_fields(10) [OF out] assms(1) have live: "mounted ?v" by simp
  have step: "tick ?v = ?v\<lparr>page := (page ?v)\<lparr>timeLeft := n - int k - 1\<rparr>,
                    timers := remove1 (CountdownTimeout (n - int k)) (timers ?v) @ [CountdownTimeout (n - int k - 1)],
                    timerDeps := Some (n - int k - 1, sessionId (page ?v))\<rparr>"
    using live ok deps more by (rule tick_running)
  have a: "timersOk (tick ?v)"
    using live ok deps more by (rule tick_running_ok)
  have b: "timerDeps (tick ?v) = Some (n - int (Suc k), sessionId (page (tick ?v)))"
    by (simp add: step algebra_simps)
  have c: "timeLeft (page (tick ?v)) = n - int (Suc k)"
    by (simp add: step algebra_simps)
  have d: "outsideCountdown (tick ?v) = outsideCountdown w"
    using outsideCountdown_tick_running [OF live ok deps more] out by simp
  from a b c d show ?case by simp
qed

lemma tick_fixed: "tick w = w \<Longrightarrow> (tick ^^ m) w = w"
  by (induction m) simp_all

text \<open>
  Claim C4. From a countdown seeded with 10 (the countdown effect has run for it) and
  with nothing but local ticks happening, tick \<open>k < 10\<close> leaves \<open>10 - k\<close> on the clock
  and navigates nowhere; the tenth tick brings the clock to zero, stops every track of
  the local stream, clears \<open>localStream\<close> and \<open>currentCall\<close>, closes the call, and
  navigates to \<open>/chat/\<close> followed by the page's session identifier; further ticks
  change nothing, so the navigation happens exactly once.
\<close>

theorem C4_countdown_from_ten:
  assumes "mounted w" and "timersOk w" and "timerDeps w = Some (10, sessionId (page w))"
    and "timeLeft (page w) = 10"
  shows "(\<forall>k<10. timeLeft (page ((tick ^^ k) w)) = 10 - int k
                 \<and> pushes ((tick ^^ k) w) = pushes w
                 \<and> streams ((tick ^^ k) w) = streams w)
       \<and> timeLeft (page ((tick ^^ 10) w)) = 0
       \<and> pushes ((tick ^^ 10) w) = pushes w @ [''/chat/'' @ shown (sessionId (page w))]
       \<and> streams ((tick ^^ 10) w) =
           (case localStream (page w) of
              None \<Rightarrow> streams w
            | Some s \<Rightarrow> (streams w)(s := map stop (streams w s)))
       \<and> localStream (page ((tick ^^ 10) w)) = None
       \<and> currentCall (page ((tick ^^ 10) w)) = None
       \<and> closedCalls ((tick ^^ 10) w) =
           (case currentCall (page w) of None \<Rightarrow> closedCalls w | Some c \<Rightarrow> insert c (closedCalls w))
       \<and> (\<forall>m. (tick ^^ (10 + m)) w = (tick ^^ 10) w)"
proof -
  have running: "timeLeft (page ((tick ^^ k) w)) = 10 - int k
                 \<and> pushes ((tick ^^ k) w) = pushes w
                 \<and> streams ((tick ^^ k) w) = streams w" if "k < 10" for k
  proof -
    from that have "int k < 10" by simp
    from ticks_running [OF assms this]
    have tl: "timeLeft (page ((tick ^^ k) w)) = 10 - int k"
      and out: "outsideCountdown ((tick ^^ k) w) = outsideCountdown w"
      by simp_all
    from tl outside_fields(1,2) [OF out] show ?thesis by simp
  qed
  let ?v = "(tick ^^ 9) w"
  let ?z = "(tick ^^ 10) w"
  have "int 9 < 10" by simp
  from ticks_running [OF assms this]
  have ok: "timersOk ?v" and deps: "timerDeps ?v = Some (1, sessionId (page ?v))"
    and out: "outsideCountdown ?v = outsideCountdown w"
    by simp_all
  from outside_fields(10) [OF out] assms(1) have live: "mounted ?v" by simp
  have "(10::nat) = Suc 9" by simp
  then have "?z = tick ?v" by (simp only: funpow.simps o_apply)
  with tick_last [OF live ok deps]
  have z: "?z =
    (routerPush (''/chat/'' @ shown (sessionId (page ?v)))
       (cleanupMedia ((page ?v)\<lparr>timeLeft := 0\<rparr>)
          (?v\<lparr>page := (page ?v)\<lparr>timeLeft := 0\<rparr>,
              timers := remove1 (CountdownTimeout 1) (timers ?v)\<rparr>)))
      \<lparr>timerDeps := Some (0, sessionId (page ?v))\<rparr>"
    by simp
  note same = outside_fields [OF out]
  have z1: "timeLeft (page ?z) = 0"
    by (simp add: z routerPush_def cleanupMedia_page)
  have z2: "pushes ?z = pushes w @ [''/chat/'' @ shown (sessionId (page w))]"
    by (simp add: z routerPush_def same)
  have z3: "streams ?z =
      (case localStream (page w) of None \<Rightarrow> streams w | Some s \<Rightarrow> (streams w)(s := map stop (streams w s)))"
    by (simp add: z routerPush_def cleanupMedia_streams same split: option.splits)
  have z4: "localStream (page ?z) = None"
    by (simp add: z routerPush_def cleanupMedia_page split: option.splits)
  have z5: "currentCall (page ?z) = None"
    by (simp add: z routerPush_def cleanupMedia_page split: option.splits)
  have z6: "closedCalls ?z =
      (case currentCall (page w) of None \<Rightarrow> closedCalls w | Some c \<Rightarrow> insert c (closedCalls w))"
    by (simp add: z routerPush_def cleanupMedia_closed same split: option.splits)
  have "filter isCountdown (remove1 (CountdownTimeout 1) (timers ?v)) = []"
    using countdown_pending [OF ok deps] by (simp add: no_countdown_after_remove1)
  then have "filter isCountdown (timers ?z) = []"
    by (simp add: z routerPush_def)
  then have "tick ?z = ?z" by (rule tick_without_countdown)
  then have fixed: "(tick ^^ m) ?z = ?z" for m by (rule tick_fixed)
  have z7: "(tick ^^ (10 + m)) w = ?z" for m
  proof -
    have "(tick ^^ (m + 10)) w = (tick ^^ m) ?z" by (simp only: funpow_add o_apply)
    with fixed [of m] show ?thesis by (simp add: add.commute)
  qed
  from running z1 z2 z3 z4 z5 z6 z7 show ?thesis by blast
qed

theorem C4_countdown_from_ten_witness:
  "mounted visitSeeded
   \<and> timersOk visitSeeded
   \<and> timerDeps visitSeeded = Some (10, sessionId (page visitSeeded))
   \<and> timeLeft (page visitSeeded) = 10
   \<and> timeLeft (page ((tick ^^ 3) visitSeeded)) = 7
   \<and> pushes ((tick ^^ 3) visitSeeded) = []
   \<and> timeLeft (page ((tick ^^ 10) visitSeeded)) = 0
   \<and> pushes ((tick ^^ 10) visitSeeded) = [''/chat/s1'']
   \<and> map stopCalls (streams ((tick ^^ 10) visitSeeded) 7) = [1, 1]
   \<and> localStream (page ((tick ^^ 10) visitSeeded)) = None
   \<and> (tick ^^ (10 + 15)) visitSeeded = (tick ^^ 10) visitSeeded"
proof -
  have h0: "mounted visitSeeded"
    by (simp add: visitSeeded_eq)
  have h1: "timersOk visitSeeded"
    by (simp add: visitSeeded_eq timersOk_def)
  have h2: "timerDeps visitSeeded = Some (10, sessionId (page visitSeeded))"
    by (simp add: visitSeeded_eq)
  have h3: "timeLeft (page visitSeeded) = 10"
    by (simp add: visitSeeded_eq)
  note c = C4_countdown_from_ten [OF h0 h1 h2 h3]
  from c have "timeLeft (page ((tick ^^ 3) visitSeeded)) = 10 - int 3
      \<and> pushes ((tick ^^ 3) visitSeeded) = pushes visitSeeded"
    by simp
  moreover from c have "(tick ^^ (10 + 15)) visitSeeded = (tick ^^ 10) visitSeeded"
    by blast
  moreover from c have "pushes ((tick ^^ 10) visitSeeded)
      = pushes visitSeeded @ [''/chat/'' @ shown (sessionId (page visitSeeded))]"
    by blast
  moreover from c have "streams ((tick ^^ 10) visitSeeded) =
      (case localStream (page visitSeeded) of None \<Rightarrow> streams visitSeeded
       | Some s \<Rightarrow> (streams visitSeeded)(s := map stop (streams visitSeeded s)))"
    by blast
  moreover from c have "timeLeft (page ((tick ^^ 10) visitSeeded)) = 0
      \<and> localStream (page ((tick ^^ 10) visitSeeded)) = None"
    by blast
  ultimately show ?thesis
    using h0 h1 h2 h3 by (simp add: visitSeeded_eq demoHeap_def stop_def)
qed

end
